theory Spec2Isabelle
  imports Main
begin

text \<open>
  The route handlers of the chat application: \<^verbatim>\<open>POST\<close>, \<^verbatim>\<open>GET\<close> and
  \<^verbatim>\<open>DELETE\<close> of \<^verbatim>\<open>/api/chat\<close> (start a generation, resume it, delete a
  conversation), \<^verbatim>\<open>PATCH\<close> of \<^verbatim>\<open>/api/vote\<close> (cast a vote), the accessor of the
  stream context, and the request schemas. A handler is a function from the state before
  the request to its response and the state after it; what a handler calls outside the
  process is a parameter.
\<close>

section \<open>Values, records and streams\<close>

text \<open>
  A JavaScript value as \<^verbatim>\<open>request.json()\<close> produces it. A property that is absent reads
  as \<^verbatim>\<open>undefined\<close>; it is modelled by \<open>None\<close> of \<open>json option\<close>. \<open>JObj\<close> lists the
  own properties of the parsed object. Numbers are integers here: the handlers only test
  whether a number is zero.
\<close>

datatype json =
    JNull
  | JBool bool
  | JNum int
  | JStr string
  | JArr "json list"
  | JObj "(string \<times> json) list"

text \<open>JavaScript truthiness, as \<^verbatim>\<open>!x\<close> tests it.\<close>

fun truthy :: "json option \<Rightarrow> bool" where
  "truthy None = False"
| "truthy (Some JNull) = False"
| "truthy (Some (JBool b)) = b"
| "truthy (Some (JNum n)) = (n \<noteq> 0)"
| "truthy (Some (JStr s)) = (s \<noteq> [])"
| "truthy (Some (JArr xs)) = True"
| "truthy (Some (JObj kvs)) = True"

text \<open>
  What a collaborator throws: a \<^verbatim>\<open>ChatSDKError\<close> with its code and optional cause, or any
  other error with its message.
\<close>

datatype exn =
    ChatSDKError string "string option"
  | Error string

text \<open>Timestamps are JavaScript dates: milliseconds since the epoch.\<close>

type_synonym timestamp = int

record Chat =
  chat_id :: string
  chat_userId :: string
  chat_title :: string
  chat_visibility :: string
  chat_createdAt :: timestamp

record DBMessage =
  msg_id :: string
  msg_chatId :: string
  msg_role :: string
  msg_parts :: json
  msg_attachments :: json
  msg_createdAt :: timestamp

record User =
  user_id :: string
  user_type :: string

record Session =
  session_user :: "User option"

text \<open>
  A chunk of a data stream: a part written by the model engine and its tools, a data part
  written with \<^verbatim>\<open>writeData\<close>, or the error part that \<^verbatim>\<open>onError\<close> produces. A stream
  that has ended is its chunks in order and the way it ended.
\<close>

datatype chunk =
    Part string
  | Data json
  | ErrorPart string

datatype stream_end = Closed | Errored

record ReadableStream =
  chunks :: "chunk list"
  ending :: stream_end

datatype Response =
    StreamResponse ReadableStream nat
  | NullResponse nat
  | TextResponse string nat
  | JsonResponse json nat
  | ErrorResponse string "string option"

text \<open>\<^verbatim>\<open>new ChatSDKError(code, cause).toResponse()\<close>, and the same for a caught error.\<close>

definition toResponse :: "string \<Rightarrow> string option \<Rightarrow> Response" where
  "toResponse code cause = ErrorResponse code cause"

record Request =
  searchParams :: "(string \<times> string) list"
  body :: "exn + json"

text \<open>\<^verbatim>\<open>searchParams.get(name)\<close>: the first value of the name, or null.\<close>

definition searchParams_get :: "Request \<Rightarrow> string \<Rightarrow> string option" where
  "searchParams_get request name = map_of (searchParams request) name"

text \<open>
  The test \<^verbatim>\<open>!x\<close> on a value that is a string or null: \<open>None\<close> when the test
  succeeds (null or the empty string), the string otherwise.
\<close>

definition truthy_param :: "string option \<Rightarrow> string option" where
  "truthy_param x = (case x of None \<Rightarrow> None | Some v \<Rightarrow> if v = [] then None else Some v)"

section \<open>Effects\<close>

text \<open>
  Every call that leaves the handler is recorded, in order, in a trace; so is every line
  written to the console.
\<close>

datatype event =
    Call_createResumableStreamContext
  | Call_auth
  | Call_getChatById json
  | Call_getStreamIdsByChatId string
  | Call_resumableStream string
  | Call_getMessagesByChatId string
  | Call_getMessageCountByUserId string int
  | Call_generateTitleFromUserMessage
  | Call_saveChat string string string string
  | Call_saveMessages "DBMessage list"
  | Call_createStreamId string string
  | Call_streamText
  | Call_deleteChatById string
  | Call_voteMessage json json json
  | Console_log string
  | Console_warn string
  | Console_error string

text \<open>
  The stream context of the \<^verbatim>\<open>resumable-stream\<close> package is an object with one method;
  \<open>'w\<close> is the state of everything outside the process (the database, the channel backend).
  \<^verbatim>\<open>resumableStream(id, () => stream)\<close> resolves to a stream or to null, or throws.
\<close>

record 'w ResumableStreamContext =
  resumableStream :: "string \<Rightarrow> ReadableStream \<Rightarrow> 'w \<Rightarrow> exn + (ReadableStream option \<times> 'w)"

record 'w state =
  world :: 'w
  globalStreamContext :: "'w ResumableStreamContext option"
  trace :: "event list"

type_synonym ('w, 'a) prog = "'w state \<Rightarrow> (exn + 'a) \<times> 'w state"

definition ret :: "'a \<Rightarrow> ('w, 'a) prog" where
  "ret a = (\<lambda>s. (Inr a, s))"

definition throw :: "exn \<Rightarrow> ('w, 'a) prog" where
  "throw e = (\<lambda>s. (Inl e, s))"

definition await :: "('w, 'a) prog \<Rightarrow> ('a \<Rightarrow> ('w, 'b) prog) \<Rightarrow> ('w, 'b) prog" where
  "await m f = (\<lambda>s. case m s of (Inl e, s') \<Rightarrow> (Inl e, s') | (Inr a, s') \<Rightarrow> f a s')"

text \<open>\<^verbatim>\<open>try { x = m } catch (e) { h e }\<close> followed by the rest of the body.\<close>

definition try_catch :: "('w, 'a) prog \<Rightarrow> (exn \<Rightarrow> ('w, 'b) prog) \<Rightarrow> ('a \<Rightarrow> ('w, 'b) prog) \<Rightarrow> ('w, 'b) prog" where
  "try_catch m h f = (\<lambda>s. case m s of (Inl e, s') \<Rightarrow> h e s' | (Inr a, s') \<Rightarrow> f a s')"

definition emit :: "event \<Rightarrow> ('w, unit) prog" where
  "emit ev = (\<lambda>s. (Inr (), s\<lparr>trace := trace s @ [ev]\<rparr>))"

text \<open>A call that reads the outside world, and a call that may change it.\<close>

definition query :: "event \<Rightarrow> ('w \<Rightarrow> exn + 'a) \<Rightarrow> ('w, 'a) prog" where
  "query ev f = (\<lambda>s. (f (world s), s\<lparr>trace := trace s @ [ev]\<rparr>))"

definition command :: "event \<Rightarrow> ('w \<Rightarrow> exn + ('a \<times> 'w)) \<Rightarrow> ('w, 'a) prog" where
  "command ev f = (\<lambda>s.
     case f (world s) of
       Inl e \<Rightarrow> (Inl e, s\<lparr>trace := trace s @ [ev]\<rparr>)
     | Inr (a, w') \<Rightarrow> (Inr a, s\<lparr>world := w', trace := trace s @ [ev]\<rparr>))"

section \<open>Collaborators\<close>

text \<open>A message as the client sends it and as the \<^verbatim>\<open>ai\<close> package assembles it.\<close>

record UIMessage =
  ui_id :: string
  ui_role :: string
  ui_content :: "string option"
  ui_parts :: "json list"
  ui_experimental_attachments :: "json list option"

record PostRequestBody =
  body_id :: string
  body_message :: UIMessage
  body_selectedChatModel :: string
  body_selectedVisibilityType :: string

text \<open>One entry of \<^verbatim>\<open>entitlementsByUserType\<close>.\<close>

record Entitlements =
  maxMessagesPerDay :: int

text \<open>
  The model engine is a black box. It is called with the chosen model, the request (for the
  hints of the system prompt), the stored messages, the new message and the active tools.
  A generation either finishes, having written its chunks, and hands the messages of its
  response to \<^verbatim>\<open>onFinish\<close>; or it fails after some chunks with an error.
\<close>

record StreamTextArgs =
  st_model :: string
  st_request :: Request
  st_previousMessages :: "DBMessage list"
  st_message :: UIMessage
  st_activeTools :: "string list"

record ResponseMessage =
  rm_id :: string
  rm_role :: string

datatype Generation =
    Finished "chunk list" "ResponseMessage list"
  | Failed "chunk list" exn

text \<open>
  The modules the route handlers import and this repository's sources do not contain
  (\<^verbatim>\<open>@/lib/db/queries\<close>, \<^verbatim>\<open>@/app/(auth)/auth\<close>, \<^verbatim>\<open>@/lib/ai/entitlements\<close>,
  \<^verbatim>\<open>@/lib/utils\<close>, \<^verbatim>\<open>ai\<close>, \<^verbatim>\<open>resumable-stream\<close>) are parameters of the model.
\<close>

record 'w env =
  createResumableStreamContext :: "'w \<Rightarrow> string + 'w ResumableStreamContext"
  auth :: "'w \<Rightarrow> exn + Session option"
  Date_now :: "'w \<Rightarrow> timestamp"
  JSON_stringify :: "DBMessage \<Rightarrow> string"
  getChatById :: "json \<Rightarrow> 'w \<Rightarrow> exn + Chat option"
  getStreamIdsByChatId :: "string \<Rightarrow> 'w \<Rightarrow> exn + string list"
  getMessagesByChatId :: "string \<Rightarrow> 'w \<Rightarrow> exn + DBMessage list"
  deleteChatById :: "string \<Rightarrow> 'w \<Rightarrow> exn + (json \<times> 'w)"
  voteMessage :: "json \<Rightarrow> json \<Rightarrow> json \<Rightarrow> 'w \<Rightarrow> exn + (unit \<times> 'w)"
  getMessageCountByUserId :: "string \<Rightarrow> int \<Rightarrow> 'w \<Rightarrow> exn + int"
  entitlementsByUserType :: "string \<Rightarrow> Entitlements option"
  generateTitleFromUserMessage :: "UIMessage \<Rightarrow> 'w \<Rightarrow> exn + string"
  saveChat :: "string \<Rightarrow> string \<Rightarrow> string \<Rightarrow> string \<Rightarrow> 'w \<Rightarrow> exn + (unit \<times> 'w)"
  saveMessages :: "DBMessage list \<Rightarrow> 'w \<Rightarrow> exn + (unit \<times> 'w)"
  generateUUID :: "'w \<Rightarrow> string"
  createStreamId :: "string \<Rightarrow> string \<Rightarrow> 'w \<Rightarrow> exn + (unit \<times> 'w)"
  streamText :: "StreamTextArgs \<Rightarrow> 'w \<Rightarrow> Generation"
  getTrailingMessageId :: "ResponseMessage list \<Rightarrow> string option"
  appendResponseMessages :: "UIMessage \<Rightarrow> ResponseMessage list \<Rightarrow> UIMessage list"

text \<open>\<^verbatim>\<open>new Date()\<close>.\<close>

definition new_Date :: "'w env \<Rightarrow> ('w, timestamp) prog" where
  "new_Date env = (\<lambda>s. (Inr (Date_now env (world s)), s))"

section \<open>The stream context\<close>

text \<open>\<^verbatim>\<open>String.prototype.includes\<close>.\<close>

fun str_includes :: "string \<Rightarrow> string \<Rightarrow> bool" where
  "str_includes [] sub = (sub = [])"
| "str_includes (c # cs) sub = (take (length sub) (c # cs) = sub \<or> str_includes cs sub)"

text \<open>
  \<^verbatim>\<open>getStreamContext\<close>: when the global is null, construction is attempted; a failure is
  logged and the global stays null.
\<close>

definition getStreamContext :: "'w env \<Rightarrow> ('w, 'w ResumableStreamContext option) prog" where
  "getStreamContext env = (\<lambda>s.
     case globalStreamContext s of
       Some ctx \<Rightarrow> (Inr (Some ctx), s)
     | None \<Rightarrow>
         (let s1 = s\<lparr>trace := trace s @ [Call_createResumableStreamContext]\<rparr> in
          case createResumableStreamContext env (world s) of
            Inr ctx \<Rightarrow> (Inr (Some ctx), s1\<lparr>globalStreamContext := Some ctx\<rparr>)
          | Inl message \<Rightarrow>
              (if str_includes message ''REDIS_URL''
               then (Inr None, s1\<lparr>trace := trace s1 @
                       [Console_log '' > Resumable streams are disabled due to missing REDIS_URL'']\<rparr>)
               else (Inr None, s1\<lparr>trace := trace s1 @
                       [Console_error ''Error creating resumable stream context:'']\<rparr>))))"

section \<open>Resume: GET /api/chat\<close>

text \<open>
  \<^verbatim>\<open>differenceInSeconds\<close> of the \<^verbatim>\<open>date-fns\<close> package: the difference of the two dates in
  milliseconds, divided by 1000 and rounded towards zero.
\<close>

definition differenceInSeconds :: "timestamp \<Rightarrow> timestamp \<Rightarrow> int" where
  "differenceInSeconds dateLeft dateRight =
     (let diff = dateLeft - dateRight
      in if 0 \<le> diff then diff div 1000 else - ((- diff) div 1000))"

text \<open>
  \<^verbatim>\<open>createDataStream\<close> of the \<^verbatim>\<open>ai\<close> package, for an \<^verbatim>\<open>execute\<close> that writes the
  given chunks and returns: the stream delivers them and closes.
\<close>

definition createDataStream :: "chunk list \<Rightarrow> ReadableStream" where
  "createDataStream written = \<lparr>chunks = written, ending = Closed\<rparr>"

definition emptyDataStream :: ReadableStream where
  "emptyDataStream = createDataStream []"

definition restoredStream :: "'w env \<Rightarrow> DBMessage \<Rightarrow> ReadableStream" where
  "restoredStream env mostRecentMessage =
     createDataStream
       [Data (JObj [(''type'', JStr ''append-message''),
                    (''message'', JStr (JSON_stringify env mostRecentMessage))])]"

text \<open>\<^verbatim>\<open>messages.at(-1)\<close>.\<close>

definition at_last :: "'a list \<Rightarrow> 'a option" where
  "at_last xs = (if xs = [] then None else Some (last xs))"

definition GET :: "'w env \<Rightarrow> Request \<Rightarrow> ('w, Response) prog" where
  "GET env request =
     try_catch
       (await (getStreamContext env) (\<lambda>streamContext.
        await (new_Date env) (\<lambda>resumeRequestedAt.
        case streamContext of
          None \<Rightarrow> ret (NullResponse 204)
        | Some ctx \<Rightarrow>
            (case truthy_param (searchParams_get request ''chatId'') of
               None \<Rightarrow> ret (toResponse ''bad_request:api'' (Some ''Parameter chatId is required.''))
             | Some chatId \<Rightarrow>
               await (query Call_auth (auth env)) (\<lambda>session.
               case (case session of None \<Rightarrow> None | Some se \<Rightarrow> session_user se) of
                 None \<Rightarrow> ret (toResponse ''unauthorized:chat'' None)
               | Some user \<Rightarrow>
                   try_catch
                     (query (Call_getChatById (JStr chatId)) (getChatById env (JStr chatId)))
                     (\<lambda>error.
                        await (emit (Console_error ''Error fetching chat by ID in GET /api/chat:'')) (\<lambda>_.
                        ret (toResponse ''internal_server_error:api'' (Some ''Failed to retrieve chat.''))))
                     (\<lambda>chat.
                        case chat of
                          None \<Rightarrow> ret (toResponse ''not_found:chat'' None)
                        | Some chat \<Rightarrow>
                            if chat_visibility chat = ''private'' \<and> chat_userId chat \<noteq> user_id user
                            then ret (toResponse ''forbidden:chat'' None)
                            else
                              await (query (Call_getStreamIdsByChatId chatId)
                                       (getStreamIdsByChatId env chatId)) (\<lambda>streamIds.
                              if streamIds = []
                              then ret (toResponse ''not_found:stream'' None)
                              else
                                (let recentStreamId = last streamIds in
                                 if recentStreamId = []
                                 then ret (toResponse ''not_found:stream'' (Some ''No recent stream ID found.''))
                                 else
                                   await (command (Call_resumableStream recentStreamId)
                                            (resumableStream ctx recentStreamId emptyDataStream)) (\<lambda>stream.
                                   case stream of
                                     Some stream \<Rightarrow> ret (StreamResponse stream 200)
                                   | None \<Rightarrow>
                                       await (query (Call_getMessagesByChatId chatId)
                                                (getMessagesByChatId env chatId)) (\<lambda>messages.
                                       case at_last messages of
                                         None \<Rightarrow> ret (StreamResponse emptyDataStream 200)
                                       | Some mostRecentMessage \<Rightarrow>
                                           if msg_role mostRecentMessage \<noteq> ''assistant''
                                           then ret (StreamResponse emptyDataStream 200)
                                           else if differenceInSeconds resumeRequestedAt
                                                     (msg_createdAt mostRecentMessage) > 15
                                           then ret (StreamResponse emptyDataStream 200)
                                           else ret (StreamResponse
                                                       (restoredStream env mostRecentMessage) 200)))))))))))
       (\<lambda>error.
          await (emit (Console_error ''Unhandled error in GET /api/chat:'')) (\<lambda>_.
          case error of
            ChatSDKError code cause \<Rightarrow> ret (toResponse code cause)
          | Error message \<Rightarrow>
              ret (toResponse ''internal_server_error:api'' (Some ''An unexpected error occurred.''))))
       ret"

section \<open>Delete: DELETE /api/chat\<close>

definition DELETE :: "'w env \<Rightarrow> Request \<Rightarrow> ('w, Response) prog" where
  "DELETE env request =
     try_catch
       (case truthy_param (searchParams_get request ''id'') of
          None \<Rightarrow> ret (toResponse ''bad_request:api'' (Some ''Parameter id is required.''))
        | Some id' \<Rightarrow>
            await (query Call_auth (auth env)) (\<lambda>session.
            case (case session of None \<Rightarrow> None | Some se \<Rightarrow> session_user se) of
              None \<Rightarrow> ret (toResponse ''unauthorized:chat'' None)
            | Some user \<Rightarrow>
                await (query (Call_getChatById (JStr id')) (getChatById env (JStr id'))) (\<lambda>chat.
                case chat of
                  None \<Rightarrow> ret (toResponse ''not_found:chat'' (Some ''Chat not found.''))
                | Some chat \<Rightarrow>
                    if chat_userId chat \<noteq> user_id user
                    then ret (toResponse ''forbidden:chat'' None)
                    else
                      await (command (Call_deleteChatById id') (deleteChatById env id')) (\<lambda>deletedChat.
                      ret (JsonResponse deletedChat 200)))))
       (\<lambda>error.
          await (emit (Console_error ''Unhandled error in DELETE /api/chat:'')) (\<lambda>_.
          case error of
            ChatSDKError code cause \<Rightarrow> ret (toResponse code cause)
          | Error message \<Rightarrow>
              ret (toResponse ''internal_server_error:api'' (Some ''An unexpected error occurred.''))))
       ret"

section \<open>Votes: PATCH /api/vote\<close>

text \<open>\<^verbatim>\<open>await request.json()\<close>: the parsed body, or the error of a body that is not JSON.\<close>

definition request_json :: "Request \<Rightarrow> ('w, json) prog" where
  "request_json request = (\<lambda>s. (body request, s))"

text \<open>Reading a property of a value that is not null.\<close>

fun get_property :: "json \<Rightarrow> string \<Rightarrow> json option" where
  "get_property (JObj kvs) k = map_of kvs k"
| "get_property v k = None"

text \<open>
  \<^verbatim>\<open>const { chatId, messageId, type } = v\<close>: destructuring null throws a TypeError; any
  other value gives the three properties, undefined where absent.
\<close>

definition destructure_vote :: "json \<Rightarrow> ('w, json option \<times> json option \<times> json option) prog" where
  "destructure_vote v =
     (case v of
        JNull \<Rightarrow> throw (Error ''Cannot destructure property of null'')
      | _ \<Rightarrow> ret (get_property v ''chatId'', get_property v ''messageId'', get_property v ''type''))"

text \<open>The value itself when it is truthy.\<close>

definition truthy_value :: "json option \<Rightarrow> json option" where
  "truthy_value x = (if truthy x then x else None)"

definition PATCH :: "'w env \<Rightarrow> Request \<Rightarrow> ('w, Response) prog" where
  "PATCH env request =
     try_catch
       (await (request_json request) (\<lambda>json.
        await (destructure_vote json) (\<lambda>(chatId, messageId, type).
        case (truthy_value chatId, truthy_value messageId, truthy_value type) of
          (Some chatId, Some messageId, Some type) \<Rightarrow>
            await (query Call_auth (auth env)) (\<lambda>session.
            case (case session of None \<Rightarrow> None | Some se \<Rightarrow> session_user se) of
              None \<Rightarrow> ret (toResponse ''unauthorized:vote'' None)
            | Some user \<Rightarrow>
                await (query (Call_getChatById chatId) (getChatById env chatId)) (\<lambda>chat.
                case chat of
                  None \<Rightarrow> ret (toResponse ''not_found:chat'' None)
                | Some chat \<Rightarrow>
                    if chat_userId chat \<noteq> user_id user
                    then ret (toResponse ''forbidden:vote'' None)
                    else
                      await (command (Call_voteMessage chatId messageId type)
                               (voteMessage env chatId messageId type)) (\<lambda>_.
                      ret (TextResponse ''Message voted successfully'' 200))))
        | _ \<Rightarrow>
            ret (toResponse ''bad_request:api''
                   (Some ''Parameters chatId, messageId, and type are required.'')))))
       (\<lambda>error.
          await (emit (Console_error ''Error in PATCH /api/vote:'')) (\<lambda>_.
          ret (toResponse ''internal_server_error:api'' (Some ''An unexpected error occurred.''))))
       ret"

section \<open>Request schemas\<close>

text \<open>
  The validators of the \<^verbatim>\<open>zod\<close> package that the schemas use: each takes the value of a
  property (\<open>None\<close> when the property is absent) and gives the parsed value, or \<open>None\<close>
  when the value is refused.
\<close>

definition z_string :: "json option \<Rightarrow> string option" where
  "z_string x = (case x of Some (JStr s) \<Rightarrow> Some s | _ \<Rightarrow> None)"

definition z_string_min1 :: "json option \<Rightarrow> string option" where
  "z_string_min1 x = (case z_string x of Some s \<Rightarrow> if 1 \<le> length s then Some s else None | None \<Rightarrow> None)"

definition z_array_any :: "json option \<Rightarrow> json list option" where
  "z_array_any x = (case x of Some (JArr xs) \<Rightarrow> Some xs | _ \<Rightarrow> None)"

definition z_optional :: "(json option \<Rightarrow> 'a option) \<Rightarrow> json option \<Rightarrow> 'a option option" where
  "z_optional p x = (case x of None \<Rightarrow> Some None | Some v \<Rightarrow> map_option Some (p (Some v)))"

definition z_object :: "json option \<Rightarrow> (string \<times> json) list option" where
  "z_object x = (case x of Some (JObj kvs) \<Rightarrow> Some kvs | _ \<Rightarrow> None)"

text \<open>\<^verbatim>\<open>z.union([z.literal('up'), z.literal('down')])\<close>.\<close>

definition z_up_or_down :: "json option \<Rightarrow> string option" where
  "z_up_or_down x =
     (case x of Some (JStr s) \<Rightarrow> if s = ''up'' \<or> s = ''down'' then Some s else None | _ \<Rightarrow> None)"

text \<open>\<^verbatim>\<open>patchRequestBodySchema\<close>: whether the schema accepts the value.\<close>

definition patchRequestBodySchema :: "json \<Rightarrow> bool" where
  "patchRequestBodySchema v =
     (case z_object (Some v) of
        None \<Rightarrow> False
      | Some kvs \<Rightarrow>
          z_string_min1 (map_of kvs ''chatId'') \<noteq> None \<and>
          z_string_min1 (map_of kvs ''messageId'') \<noteq> None \<and>
          z_up_or_down (map_of kvs ''type'') \<noteq> None)"

definition message_schema :: "json option \<Rightarrow> UIMessage option" where
  "message_schema x =
     (case z_object x of
        None \<Rightarrow> None
      | Some kvs \<Rightarrow>
          (case (z_string (map_of kvs ''id''), z_string (map_of kvs ''role''),
                 z_optional z_string (map_of kvs ''content''),
                 z_array_any (map_of kvs ''parts''),
                 z_optional z_array_any (map_of kvs ''experimental_attachments'')) of
             (Some i, Some r, Some c, Some ps, Some atts) \<Rightarrow>
               Some \<lparr>ui_id = i, ui_role = r, ui_content = c, ui_parts = ps,
                     ui_experimental_attachments = atts\<rparr>
           | _ \<Rightarrow> None))"

text \<open>\<^verbatim>\<open>postRequestBodySchema.parse\<close>: the parsed body, or the error the package throws.\<close>

definition postRequestBodySchema_parse :: "json \<Rightarrow> exn + PostRequestBody" where
  "postRequestBodySchema_parse v =
     (case z_object (Some v) of
        None \<Rightarrow> Inl (Error ''ZodError'')
      | Some kvs \<Rightarrow>
          (case (z_string_min1 (map_of kvs ''id''), message_schema (map_of kvs ''message''),
                 z_string_min1 (map_of kvs ''selectedChatModel''),
                 z_string_min1 (map_of kvs ''selectedVisibilityType'')) of
             (Some i, Some m, Some model, Some vis) \<Rightarrow>
               Inr \<lparr>body_id = i, body_message = m, body_selectedChatModel = model,
                    body_selectedVisibilityType = vis\<rparr>
           | _ \<Rightarrow> Inl (Error ''ZodError'')))"

section \<open>Start generation: POST /api/chat\<close>

definition activeTools :: "string \<Rightarrow> string list" where
  "activeTools selectedChatModel =
     (if selectedChatModel = ''chat-model-reasoning'' then []
      else [''getWeather'', ''createDocument'', ''updateDocument'', ''requestSuggestions''])"

text \<open>
  The rows handed to \<^verbatim>\<open>saveMessages\<close>: the user's message when the request is
  accepted, the assistant's message when the generation has finished.
\<close>

definition user_row :: "PostRequestBody \<Rightarrow> timestamp \<Rightarrow> DBMessage" where
  "user_row requestBody createdAt =
     \<lparr>msg_id = ui_id (body_message requestBody), msg_chatId = body_id requestBody,
      msg_role = ''user'',
      msg_parts = JArr (ui_parts (body_message requestBody)),
      msg_attachments =
        JArr (case ui_experimental_attachments (body_message requestBody) of
                None \<Rightarrow> [] | Some atts \<Rightarrow> atts),
      msg_createdAt = createdAt\<rparr>"

definition assistant_row :: "string \<Rightarrow> PostRequestBody \<Rightarrow> UIMessage \<Rightarrow> timestamp \<Rightarrow> DBMessage" where
  "assistant_row assistantId requestBody assistantMessage createdAt =
     \<lparr>msg_id = assistantId, msg_chatId = body_id requestBody,
      msg_role = ui_role assistantMessage,
      msg_parts = JArr (ui_parts assistantMessage),
      msg_attachments =
        JArr (case ui_experimental_attachments assistantMessage of
                None \<Rightarrow> [] | Some atts \<Rightarrow> atts),
      msg_createdAt = createdAt\<rparr>"

text \<open>The arguments of \<^verbatim>\<open>streamText\<close>.\<close>

definition streamText_args :: "Request \<Rightarrow> PostRequestBody \<Rightarrow> DBMessage list \<Rightarrow> StreamTextArgs" where
  "streamText_args request requestBody previousMessages =
     \<lparr>st_model = body_selectedChatModel requestBody, st_request = request,
      st_previousMessages = previousMessages, st_message = body_message requestBody,
      st_activeTools = activeTools (body_selectedChatModel requestBody)\<rparr>"

text \<open>
  The \<^verbatim>\<open>onFinish\<close> callback: the assistant message is assembled and saved inside a
  \<^verbatim>\<open>try\<close> whose \<^verbatim>\<open>catch\<close> writes the error to the console.
\<close>

definition onFinish :: "'w env \<Rightarrow> User \<Rightarrow> PostRequestBody \<Rightarrow> ResponseMessage list \<Rightarrow> ('w, unit) prog" where
  "onFinish env user requestBody response_messages =
     (if user_id user \<noteq> []
      then
        try_catch
          (case truthy_param (getTrailingMessageId env
                  (filter (\<lambda>msg. rm_role msg = ''assistant'') response_messages)) of
             None \<Rightarrow> throw (Error ''No assistant message found!'')
           | Some assistantId \<Rightarrow>
               (case appendResponseMessages env (body_message requestBody) response_messages of
                  _ # assistantMessage # _ \<Rightarrow>
                    await (new_Date env) (\<lambda>createdAt.
                    let saved = [assistant_row assistantId requestBody assistantMessage createdAt]
                    in command (Call_saveMessages saved) (saveMessages env saved))
                | _ \<Rightarrow> throw (Error ''Cannot read properties of undefined'')))
          (\<lambda>saveError. emit (Console_error ''Failed to save assistant message:''))
          ret
      else ret ())"

text \<open>
  The stream that \<^verbatim>\<open>createDataStream\<close> builds around a generation: the chunks the
  generation wrote; an error of the generation goes to \<^verbatim>\<open>onError\<close>, whose message is
  the last chunk. Either way the stream closes.
\<close>

definition dataStream_of :: "Generation \<Rightarrow> ReadableStream" where
  "dataStream_of generation =
     (case generation of
        Finished written response_messages \<Rightarrow> createDataStream written
      | Failed written error \<Rightarrow>
          createDataStream (written @ [ErrorPart ''Oops, an error occurred during streaming!'']))"

text \<open>
  Creating the stream starts the generation. The generation is run to its end where the
  stream is created; the model does not interleave it with the rest of the handler.
\<close>

definition producer_stream :: "'w env \<Rightarrow> User \<Rightarrow> PostRequestBody \<Rightarrow> StreamTextArgs \<Rightarrow> ('w, ReadableStream) prog" where
  "producer_stream env user requestBody args =
     await (query Call_streamText (\<lambda>w. Inr (streamText env args w))) (\<lambda>generation.
     await (case generation of
              Finished written response_messages \<Rightarrow>
                onFinish env user requestBody response_messages
            | Failed written error \<Rightarrow> emit (Console_error ''DataStream error:'')) (\<lambda>_.
     ret (dataStream_of generation)))"

definition POST :: "'w env \<Rightarrow> Request \<Rightarrow> ('w, Response) prog" where
  "POST env request =
     try_catch
       (await (request_json request) (\<lambda>json. (\<lambda>s. (postRequestBodySchema_parse json, s))))
       (\<lambda>error.
          await (emit (Console_error ''Error parsing request body:'')) (\<lambda>_.
          ret (toResponse ''bad_request:api'' (Some ''Invalid request body.''))))
       (\<lambda>requestBody.
          try_catch
            (let id' = body_id requestBody;
                 message = body_message requestBody;
                 selectedChatModel = body_selectedChatModel requestBody;
                 selectedVisibilityType = body_selectedVisibilityType requestBody
             in
             await (query Call_auth (auth env)) (\<lambda>session.
             case (case session of None \<Rightarrow> None | Some se \<Rightarrow> session_user se) of
               None \<Rightarrow> ret (toResponse ''unauthorized:chat'' None)
             | Some user \<Rightarrow>
                 await (query (Call_getMessageCountByUserId (user_id user) 24)
                          (getMessageCountByUserId env (user_id user) 24)) (\<lambda>messageCount.
                 await (case entitlementsByUserType env (user_type user) of
                          None \<Rightarrow> throw (Error ''Cannot read properties of undefined'')
                        | Some entitlements \<Rightarrow> ret (maxMessagesPerDay entitlements)) (\<lambda>limit.
                 if messageCount > limit
                 then ret (toResponse ''rate_limit:chat'' None)
                 else
                   await (query (Call_getChatById (JStr id')) (getChatById env (JStr id'))) (\<lambda>chat.
                   await (case chat of
                            None \<Rightarrow>
                              await (query Call_generateTitleFromUserMessage
                                       (generateTitleFromUserMessage env message)) (\<lambda>title.
                              await (command (Call_saveChat id' (user_id user) title selectedVisibilityType)
                                       (saveChat env id' (user_id user) title selectedVisibilityType)) (\<lambda>_.
                              ret None))
                          | Some chat \<Rightarrow>
                              if chat_userId chat \<noteq> user_id user
                              then ret (Some (toResponse ''forbidden:chat'' None))
                              else ret None) (\<lambda>returned.
                   case returned of
                     Some response \<Rightarrow> ret response
                   | None \<Rightarrow>
                       await (query (Call_getMessagesByChatId id') (getMessagesByChatId env id')) (\<lambda>previousMessages.
                       await (new_Date env) (\<lambda>createdAt.
                       let userMessage = [user_row requestBody createdAt]
                       in
                       await (command (Call_saveMessages userMessage) (saveMessages env userMessage)) (\<lambda>_.
                       await (\<lambda>s. (Inr (generateUUID env (world s)), s)) (\<lambda>streamId.
                       await (command (Call_createStreamId streamId id') (createStreamId env streamId id')) (\<lambda>_.
                       await (producer_stream env user requestBody
                                (streamText_args request requestBody previousMessages)) (\<lambda>stream.
                       await (getStreamContext env) (\<lambda>streamContext.
                       await (case streamContext of
                                Some ctx \<Rightarrow>
                                  await (command (Call_resumableStream streamId)
                                           (resumableStream ctx streamId stream)) (\<lambda>resumableStreamResult.
                                  case resumableStreamResult of
                                    Some resumed \<Rightarrow> ret (Some resumed)
                                  | None \<Rightarrow>
                                      await (emit (Console_warn
                                        ''resumableStream returned null, falling back to direct stream.'')) (\<lambda>_.
                                      ret (Some stream)))
                              | None \<Rightarrow> ret (Some stream)) (\<lambda>responseStreamToReturn.
                       case responseStreamToReturn of
                         Some responseStream \<Rightarrow> ret (StreamResponse responseStream 200)
                       | None \<Rightarrow>
                           await (emit (Console_error
                             ''Critical error: No valid stream generated for response.'')) (\<lambda>_.
                           ret (toResponse ''internal_server_error:api''
                                  (Some ''Failed to generate a valid streaming response.'')))))))))))))))))
            (\<lambda>error.
               case error of
                 ChatSDKError code cause \<Rightarrow> ret (toResponse code cause)
               | Error message \<Rightarrow>
                   await (emit (Console_error ''Unhandled error in POST /api/chat:'')) (\<lambda>_.
                   ret (toResponse ''internal_server_error:api'' (Some ''An unexpected error occurred.''))))
            ret)"

section \<open>A sample deployment\<close>

text \<open>
  Concrete collaborators on which the theorems below are exercised. The outside world is a
  counter of the writes performed. Alice owns the private conversation \<open>c1\<close>, one stream id
  has been minted for it, its channel is gone, and its last message is an assistant message
  created 15.5 seconds before the clock's time.
\<close>

definition alice :: User where
  "alice = \<lparr>user_id = ''alice'', user_type = ''regular''\<rparr>"

definition bob :: User where
  "bob = \<lparr>user_id = ''bob'', user_type = ''regular''\<rparr>"

definition sample_chat :: Chat where
  "sample_chat = \<lparr>chat_id = ''c1'', chat_userId = ''alice'', chat_title = ''Greeting'',
                   chat_visibility = ''private'', chat_createdAt = 0\<rparr>"

definition sample_message :: DBMessage where
  "sample_message = \<lparr>msg_id = ''m1'', msg_chatId = ''c1'', msg_role = ''assistant'',
                      msg_parts = JArr [JStr ''Hello''], msg_attachments = JArr [],
                      msg_createdAt = 84500\<rparr>"

definition sample_context :: "nat ResumableStreamContext" where
  "sample_context = \<lparr>resumableStream = (\<lambda>streamId stream w. Inr (None, w))\<rparr>"

definition sample_env :: "nat env" where
  "sample_env =
     \<lparr>createResumableStreamContext = (\<lambda>w. Inr sample_context),
      auth = (\<lambda>w. Inr (Some \<lparr>session_user = Some alice\<rparr>)),
      Date_now = (\<lambda>w. 100000),
      JSON_stringify = (\<lambda>m. msg_id m @ '':'' @ msg_role m),
      getChatById = (\<lambda>i w. Inr (Some sample_chat)),
      getStreamIdsByChatId = (\<lambda>c w. Inr [''s1'']),
      getMessagesByChatId = (\<lambda>c w. Inr [sample_message]),
      deleteChatById = (\<lambda>i w. Inr (JStr i, Suc w)),
      voteMessage = (\<lambda>c m t w. Inr ((), Suc w)),
      getMessageCountByUserId = (\<lambda>u h w. Inr 3),
      entitlementsByUserType = (\<lambda>t. Some \<lparr>maxMessagesPerDay = 100\<rparr>),
      generateTitleFromUserMessage = (\<lambda>m w. Inr ''Greeting''),
      saveChat = (\<lambda>i u t v w. Inr ((), Suc w)),
      saveMessages = (\<lambda>ms w. Inr ((), Suc w)),
      generateUUID = (\<lambda>w. ''s2''),
      createStreamId = (\<lambda>sid c w. Inr ((), Suc w)),
      streamText = (\<lambda>args w. Finished [Part ''Hel'', Part ''lo'']
                                  [\<lparr>rm_id = ''a1'', rm_role = ''assistant''\<rparr>]),
      getTrailingMessageId = (\<lambda>ms. map_option rm_id (at_last ms)),
      appendResponseMessages = (\<lambda>m rs.
        [m, \<lparr>ui_id = ''a1'', ui_role = ''assistant'', ui_content = Some ''Hello'',
              ui_parts = [JStr ''Hello''], ui_experimental_attachments = None\<rparr>])\<rparr>"

definition sample_state :: "nat state" where
  "sample_state = \<lparr>world = 0, globalStreamContext = None, trace = []\<rparr>"

definition resume_request :: Request where
  "resume_request = \<lparr>searchParams = [(''chatId'', ''c1'')], body = Inl (Error ''no body'')\<rparr>"

text \<open>The same deployment with the channel backend unconfigured.\<close>

definition offline_env :: "nat env" where
  "offline_env = sample_env\<lparr>createResumableStreamContext :=
                    (\<lambda>w. Inl ''REDIS_URL environment variable is not set'')\<rparr>"

text \<open>The same deployment with a channel backend that cannot be reached.\<close>

definition broken_env :: "nat env" where
  "broken_env = sample_env\<lparr>createResumableStreamContext := (\<lambda>w. Inl ''connection refused'')\<rparr>"

text \<open>The same conversation made public, and the deployment with Bob signed in.\<close>

definition public_chat :: Chat where
  "public_chat = sample_chat\<lparr>chat_visibility := ''public''\<rparr>"

definition bob_env :: "nat env" where
  "bob_env = sample_env\<lparr>auth := (\<lambda>w. Inr (Some \<lparr>session_user = Some bob\<rparr>))\<rparr>"

text \<open>Requests to delete the conversation and to vote on its message.\<close>

definition delete_request :: Request where
  "delete_request = \<lparr>searchParams = [(''id'', ''c1'')], body = Inl (Error ''no body'')\<rparr>"

definition vote_request :: Request where
  "vote_request = \<lparr>searchParams = [],
                    body = Inr (JObj [(''chatId'', JStr ''c1''), (''messageId'', JStr ''m1''),
                                      (''type'', JStr ''up'')])\<rparr>"

definition stray_vote_request :: Request where
  "stray_vote_request = \<lparr>searchParams = [],
                          body = Inr (JObj [(''chatId'', JStr ''c1''), (''messageId'', JStr ''m1''),
                                            (''type'', JStr ''sideways'')])\<rparr>"

text \<open>A request to start a generation in the sample conversation, and its parsed body.\<close>

definition sample_body :: PostRequestBody where
  "sample_body =
     \<lparr>body_id = ''c1'',
      body_message = \<lparr>ui_id = ''u1'', ui_role = ''user'', ui_content = Some ''Hi'',
                      ui_parts = [JStr ''Hi''], ui_experimental_attachments = None\<rparr>,
      body_selectedChatModel = ''chat-model'',
      body_selectedVisibilityType = ''private''\<rparr>"

definition start_request :: Request where
  "start_request =
     \<lparr>searchParams = [],
      body = Inr (JObj [(''id'', JStr ''c1''),
                        (''message'', JObj [(''id'', JStr ''u1''), (''role'', JStr ''user''),
                                            (''content'', JStr ''Hi''),
                                            (''parts'', JArr [JStr ''Hi''])]),
                        (''selectedChatModel'', JStr ''chat-model''),
                        (''selectedVisibilityType'', JStr ''private'')])\<rparr>"



section \<open>Properties of the stream context\<close>

lemmas prog_defs = ret_def throw_def await_def try_catch_def emit_def query_def command_def new_Date_def

lemma getStreamContext_world: "world (snd (getStreamContext env s)) = world s"
  by (simp add: getStreamContext_def Let_def split: option.splits sum.splits)

lemma getStreamContext_result:
  "fst (getStreamContext env s) =
     Inr (case globalStreamContext s of
            Some ctx \<Rightarrow> Some ctx
          | None \<Rightarrow> (case createResumableStreamContext env (world s) of
                       Inr ctx \<Rightarrow> Some ctx | Inl message \<Rightarrow> None))"
  by (simp add: getStreamContext_def Let_def split: option.splits sum.splits)

lemma getStreamContext_global:
  "globalStreamContext (snd (getStreamContext env s)) =
     (case globalStreamContext s of
            Some ctx \<Rightarrow> Some ctx
          | None \<Rightarrow> (case createResumableStreamContext env (world s) of
                       Inr ctx \<Rightarrow> Some ctx | Inl message \<Rightarrow> None))"
  by (simp add: getStreamContext_def Let_def split: option.splits sum.splits)

text \<open>
  Claim C5, as the code has it. An access with no recorded handle attempts construction.
  A success is recorded, and every later access returns the recorded handle without
  attempting construction and without changing the state. A failure is logged and not
  recorded: the access adds to the trace the attempt and one console line (the notice
  that resumable streams are disabled when the error message mentions \<open>REDIS_URL\<close>, an
  error line otherwise), the handle stays null, the outside world is untouched, and the
  next access, whatever the constructor would then do, attempts construction again.
\<close>

theorem getStreamContext_lifecycle:
  "(globalStreamContext s = Some ctx \<longrightarrow> getStreamContext env s = (Inr (Some ctx), s)) \<and>
   (globalStreamContext s = None \<and> createResumableStreamContext env (world s) = Inr ctx \<longrightarrow>
      getStreamContext env s =
        (Inr (Some ctx),
         s\<lparr>trace := trace s @ [Call_createResumableStreamContext], globalStreamContext := Some ctx\<rparr>)) \<and>
   (globalStreamContext s = None \<and> createResumableStreamContext env (world s) = Inl message \<longrightarrow>
      fst (getStreamContext env s) = Inr None \<and>
      globalStreamContext (snd (getStreamContext env s)) = None \<and>
      world (snd (getStreamContext env s)) = world s \<and>
      trace (snd (getStreamContext env s)) =
        trace s @
          [Call_createResumableStreamContext,
           if str_includes message ''REDIS_URL''
           then Console_log '' > Resumable streams are disabled due to missing REDIS_URL''
           else Console_error ''Error creating resumable stream context:''] \<and>
      count_list (trace (snd (getStreamContext env s))) Call_createResumableStreamContext =
        count_list (trace s) Call_createResumableStreamContext + 1 \<and>
      count_list (trace (snd (getStreamContext env' (snd (getStreamContext env s)))))
          Call_createResumableStreamContext =
        count_list (trace s) Call_createResumableStreamContext + 2)"
  by (auto simp add: getStreamContext_def Let_def split: option.splits sum.splits)

text \<open>
  On the sample deployment: the first access constructs and records the handle, the second
  returns it; with the backend unconfigured the failure is logged as a notice and two
  accesses make two attempts; with a backend that refuses the connection the failure is
  logged as an error.
\<close>

theorem getStreamContext_lifecycle_witness:
  "getStreamContext sample_env (snd (getStreamContext sample_env sample_state)) =
     (Inr (Some sample_context), snd (getStreamContext sample_env sample_state)) \<and>
   getStreamContext sample_env sample_state =
     (Inr (Some sample_context),
      sample_state\<lparr>trace := [Call_createResumableStreamContext],
                   globalStreamContext := Some sample_context\<rparr>) \<and>
   fst (getStreamContext offline_env sample_state) = Inr None \<and>
   trace (snd (getStreamContext offline_env sample_state)) =
     [Call_createResumableStreamContext,
      Console_log '' > Resumable streams are disabled due to missing REDIS_URL''] \<and>
   trace (snd (getStreamContext broken_env sample_state)) =
     [Call_createResumableStreamContext,
      Console_error ''Error creating resumable stream context:''] \<and>
   count_list (trace (snd (getStreamContext offline_env (snd (getStreamContext offline_env sample_state)))))
     Call_createResumableStreamContext = 2"
proof -
  have created: "createResumableStreamContext sample_env (world sample_state) = Inr sample_context"
    by (simp add: sample_env_def)
  have failed: "createResumableStreamContext offline_env (world sample_state) =
                  Inl ''REDIS_URL environment variable is not set''"
    by (simp add: offline_env_def)
  have refused: "createResumableStreamContext broken_env (world sample_state) =
                  Inl ''connection refused''"
    by (simp add: broken_env_def)
  have fresh: "globalStreamContext sample_state = None" "trace sample_state = []"
    by (simp_all add: sample_state_def)
  have first: "getStreamContext sample_env sample_state =
     (Inr (Some sample_context),
      sample_state\<lparr>trace := [Call_createResumableStreamContext],
                   globalStreamContext := Some sample_context\<rparr>)"
    using getStreamContext_lifecycle [of sample_state sample_context sample_env] created fresh
    by simp
  have again: "getStreamContext sample_env (snd (getStreamContext sample_env sample_state)) =
     (Inr (Some sample_context), snd (getStreamContext sample_env sample_state))"
    using getStreamContext_lifecycle [of "snd (getStreamContext sample_env sample_state)" sample_context sample_env] first
    by simp
  have retry: "fst (getStreamContext offline_env sample_state) = Inr None \<and>
       trace (snd (getStreamContext offline_env sample_state)) =
         [Call_createResumableStreamContext,
          Console_log '' > Resumable streams are disabled due to missing REDIS_URL''] \<and>
       count_list (trace (snd (getStreamContext offline_env (snd (getStreamContext offline_env sample_state)))))
         Call_createResumableStreamContext = 2"
    using getStreamContext_lifecycle [of sample_state _ offline_env
             "''REDIS_URL environment variable is not set''" offline_env] failed fresh
    by simp
  have other: "trace (snd (getStreamContext broken_env sample_state)) =
         [Call_createResumableStreamContext,
          Console_error ''Error creating resumable stream context:'']"
    using getStreamContext_lifecycle [of sample_state _ broken_env "''connection refused''" broken_env] refused fresh
    by simp
  show ?thesis using first again retry other by simp
qed

text \<open>
  Claim C5 as the specification words it (a recorded failure, never retried) does not hold:
  with the backend unconfigured the first access yields no handle, a second access attempts
  construction a second time, and an access made once the backend can be constructed
  obtains a handle.
\<close>

theorem getStreamContext_retries_counterexample:
  "fst (getStreamContext offline_env sample_state) = Inr None \<and>
   count_list (trace (snd (getStreamContext offline_env (snd (getStreamContext offline_env sample_state)))))
     Call_createResumableStreamContext = 2 \<and>
   fst (getStreamContext sample_env (snd (getStreamContext offline_env sample_state))) =
     Inr (Some sample_context)"
  by (simp add: getStreamContext_def offline_env_def sample_env_def sample_state_def Let_def)

section \<open>Properties of resume\<close>

text \<open>
  \<^verbatim>\<open>differenceInSeconds(later, earlier) > 15\<close> holds from 16 full seconds on.
\<close>

lemma differenceInSeconds_gt_15:
  "(differenceInSeconds later earlier > 15) = (16000 \<le> later - earlier)"
  by (simp add: differenceInSeconds_def Let_def) arith

text \<open>
  The response of a resume request that passes every gate and whose collaborators do not
  throw: the attached stream, or the fallback.
\<close>

lemma GET_outcome:
  assumes ctx: "getStreamContext env s = (Inr (Some ctx), s1)"
    and chatId: "truthy_param (searchParams_get request ''chatId'') = Some chatId"
    and auth: "auth env (world s) = Inr (Some session)" "session_user session = Some user"
    and chat: "getChatById env (JStr chatId) (world s) = Inr (Some chat)"
    and allowed: "chat_visibility chat \<noteq> ''private'' \<or> chat_userId chat = user_id user"
    and ids: "getStreamIdsByChatId env chatId (world s) = Inr streamIds"
             "streamIds \<noteq> []" "last streamIds \<noteq> []"
    and attach: "resumableStream ctx (last streamIds) emptyDataStream (world s) = Inr (attached, w')"
    and msgs: "getMessagesByChatId env chatId w' = Inr messages"
  shows "fst (GET env request s) =
           Inr (case attached of
                  Some stream \<Rightarrow> StreamResponse stream 200
                | None \<Rightarrow>
                    StreamResponse
                      (if messages = [] \<or> msg_role (last messages) \<noteq> ''assistant''
                          \<or> 16000 \<le> Date_now env (world s) - msg_createdAt (last messages)
                       then emptyDataStream else restoredStream env (last messages)) 200)"
proof -
  have w1: "world s1 = world s" using getStreamContext_world[of env s] ctx by simp
  show ?thesis
  proof (cases attached)
    case None
    with assms w1 show ?thesis
      by (auto simp add: GET_def prog_defs at_last_def differenceInSeconds_gt_15 Let_def)
  next
    case (Some stream)
    with assms w1 show ?thesis
      by (auto simp add: GET_def prog_defs Let_def)
  qed
qed

text \<open>A requester who is not the owner of a private conversation is turned away.\<close>

lemma GET_rejected:
  assumes ctx: "getStreamContext env s = (Inr (Some ctx), s1)"
    and chatId: "truthy_param (searchParams_get request ''chatId'') = Some chatId"
    and auth: "auth env (world s) = Inr (Some session)" "session_user session = Some user"
    and chat: "getChatById env (JStr chatId) (world s) = Inr (Some chat)"
    and denied: "chat_visibility chat = ''private''" "chat_userId chat \<noteq> user_id user"
  shows "GET env request s =
           (Inr (ErrorResponse ''forbidden:chat'' None),
            s1\<lparr>trace := trace s1 @ [Call_auth, Call_getChatById (JStr chatId)]\<rparr>)"
proof -
  have w1: "world s1 = world s" using getStreamContext_world[of env s] ctx by simp
  show ?thesis
    using assms w1
    by (simp add: GET_def prog_defs toResponse_def)
qed

text \<open>
  Claim C1, as the code has it. A resume request reaches the fallback when the stream context
  is available, the \<open>chatId\<close> parameter is present, the requester is signed in and may read
  the conversation, a stream id exists and attaching to the latest one yields null. Then:
  if the conversation has no message, or the most recent message is not an assistant
  message, or it was created at least 16 seconds (16000 milliseconds) before the time taken
  at the start of the request, the response is a stream with no chunk that has closed;
  otherwise the response is a closed stream of exactly one data chunk, of type
  \<open>append-message\<close>, carrying the serialized most recent message.
\<close>

theorem GET_fallback_policy:
  assumes ctx: "getStreamContext env s = (Inr (Some ctx), s1)"
    and chatId: "truthy_param (searchParams_get request ''chatId'') = Some chatId"
    and auth: "auth env (world s) = Inr (Some session)" "session_user session = Some user"
    and chat: "getChatById env (JStr chatId) (world s) = Inr (Some chat)"
    and allowed: "chat_visibility chat \<noteq> ''private'' \<or> chat_userId chat = user_id user"
    and ids: "getStreamIdsByChatId env chatId (world s) = Inr streamIds"
             "streamIds \<noteq> []" "last streamIds \<noteq> []"
    and attach: "resumableStream ctx (last streamIds) emptyDataStream (world s) = Inr (None, w')"
    and msgs: "getMessagesByChatId env chatId w' = Inr messages"
  shows "fst (GET env request s) =
           Inr (StreamResponse
                  (if messages = [] \<or> msg_role (last messages) \<noteq> ''assistant''
                      \<or> 16000 \<le> Date_now env (world s) - msg_createdAt (last messages)
                   then \<lparr>chunks = [], ending = Closed\<rparr>
                   else \<lparr>chunks = [Data (JObj [(''type'', JStr ''append-message''),
                                               (''message'', JStr (JSON_stringify env (last messages)))])],
                         ending = Closed\<rparr>) 200)"
  using GET_outcome [OF assms]
  by (simp add: emptyDataStream_def restoredStream_def createDataStream_def)

text \<open>
  On the sample deployment the last assistant message is 15.5 seconds old and is replayed;
  with the clock 4.5 seconds later it is 20 seconds old and the stream is empty.
\<close>

theorem GET_fallback_policy_witness:
  "fst (GET sample_env resume_request sample_state) =
     Inr (StreamResponse
            \<lparr>chunks = [Data (JObj [(''type'', JStr ''append-message''),
                                   (''message'', JStr ''m1:assistant'')])],
             ending = Closed\<rparr> 200) \<and>
   fst (GET (sample_env\<lparr>Date_now := (\<lambda>w. 104500)\<rparr>) resume_request sample_state) =
     Inr (StreamResponse \<lparr>chunks = [], ending = Closed\<rparr> 200)"
proof -
  let ?s1 = "sample_state\<lparr>trace := [Call_createResumableStreamContext],
                          globalStreamContext := Some sample_context\<rparr>"
  let ?late = "sample_env\<lparr>Date_now := (\<lambda>w. 104500)\<rparr>"
  have ctx: "getStreamContext sample_env sample_state = (Inr (Some sample_context), ?s1)"
            "getStreamContext ?late sample_state = (Inr (Some sample_context), ?s1)"
    by (simp_all add: getStreamContext_def sample_env_def sample_state_def)
  have chatId: "truthy_param (searchParams_get resume_request ''chatId'') = Some ''c1''"
    by (simp add: truthy_param_def searchParams_get_def resume_request_def)
  have user: "session_user \<lparr>session_user = Some alice\<rparr> = Some alice"
    by simp
  have allowed: "chat_visibility sample_chat \<noteq> ''private'' \<or> chat_userId sample_chat = user_id alice"
    by (simp add: sample_chat_def alice_def)
  have fresh: "fst (GET sample_env resume_request sample_state) =
     Inr (StreamResponse
            \<lparr>chunks = [Data (JObj [(''type'', JStr ''append-message''),
                                   (''message'', JStr ''m1:assistant'')])],
             ending = Closed\<rparr> 200)"
    using GET_fallback_policy [OF ctx(1) chatId _ user _ allowed, of "[''s1'']" 0 "[sample_message]"]
    by (simp add: sample_env_def sample_state_def sample_context_def sample_message_def)
  have stale: "fst (GET ?late resume_request sample_state) =
     Inr (StreamResponse \<lparr>chunks = [], ending = Closed\<rparr> 200)"
    using GET_fallback_policy [OF ctx(2) chatId _ user _ allowed, of "[''s1'']" 0 "[sample_message]"]
    by (simp add: sample_env_def sample_state_def sample_context_def sample_message_def)
  show ?thesis using fresh stale by simp
qed

text \<open>
  Claim C1 as the specification words it (empty when created more than 15 seconds before)
  does not hold: the sample assistant message was created 15500 milliseconds before the
  request, and the response is not the empty stream but the replay of that message.
\<close>

theorem GET_fallback_window_counterexample:
  "15 * 1000 < Date_now sample_env (world sample_state) - msg_createdAt sample_message \<and>
   getMessagesByChatId sample_env ''c1'' (world sample_state) = Inr [sample_message] \<and>
   msg_role sample_message = ''assistant'' \<and>
   fst (GET sample_env resume_request sample_state) \<noteq> Inr (StreamResponse emptyDataStream 200) \<and>
   fst (GET sample_env resume_request sample_state) =
     Inr (StreamResponse (restoredStream sample_env sample_message) 200)"
  by (simp add: GET_def prog_defs getStreamContext_def Let_def at_last_def
        truthy_param_def searchParams_get_def differenceInSeconds_def
        emptyDataStream_def restoredStream_def createDataStream_def
        sample_env_def sample_state_def sample_context_def sample_message_def sample_chat_def
        alice_def resume_request_def)

text \<open>
  Claim C4. A resume request for an existing conversation that the signed-in requester may
  read, with the stream context available and no stream id minted for the conversation, is
  answered with \<open>not_found:stream\<close>; nothing is attached and nothing outside is changed.
\<close>

theorem GET_no_stream_id:
  assumes ctx: "getStreamContext env s = (Inr (Some ctx), s1)"
    and chatId: "truthy_param (searchParams_get request ''chatId'') = Some chatId"
    and auth: "auth env (world s) = Inr (Some session)" "session_user session = Some user"
    and chat: "getChatById env (JStr chatId) (world s) = Inr (Some chat)"
    and allowed: "chat_visibility chat \<noteq> ''private'' \<or> chat_userId chat = user_id user"
    and ids: "getStreamIdsByChatId env chatId (world s) = Inr []"
  shows "GET env request s =
           (Inr (ErrorResponse ''not_found:stream'' None),
            s1\<lparr>trace := trace s1 @ [Call_auth, Call_getChatById (JStr chatId),
                                     Call_getStreamIdsByChatId chatId]\<rparr>)"
proof -
  have w1: "world s1 = world s" using getStreamContext_world[of env s] ctx by simp
  show ?thesis
    using assms w1
    by (auto simp add: GET_def prog_defs toResponse_def)
qed

theorem GET_no_stream_id_witness:
  "GET (sample_env\<lparr>getStreamIdsByChatId := (\<lambda>c w. Inr [])\<rparr>) resume_request sample_state =
     (Inr (ErrorResponse ''not_found:stream'' None),
      \<lparr>world = 0, globalStreamContext = Some sample_context,
       trace = [Call_createResumableStreamContext, Call_auth, Call_getChatById (JStr ''c1''),
                Call_getStreamIdsByChatId ''c1'']\<rparr>)"
proof -
  let ?s1 = "sample_state\<lparr>trace := [Call_createResumableStreamContext],
                          globalStreamContext := Some sample_context\<rparr>"
  let ?env = "sample_env\<lparr>getStreamIdsByChatId := (\<lambda>c w. Inr [])\<rparr>"
  have ctx: "getStreamContext ?env sample_state = (Inr (Some sample_context), ?s1)"
    by (simp add: getStreamContext_def sample_env_def sample_state_def)
  have chatId: "truthy_param (searchParams_get resume_request ''chatId'') = Some ''c1''"
    by (simp add: truthy_param_def searchParams_get_def resume_request_def)
  have auth: "auth ?env (world sample_state) = Inr (Some \<lparr>session_user = Some alice\<rparr>)"
    by (simp add: sample_env_def)
  have user: "session_user \<lparr>session_user = Some alice\<rparr> = Some alice"
    by simp
  have chat: "getChatById ?env (JStr ''c1'') (world sample_state) = Inr (Some sample_chat)"
    by (simp add: sample_env_def)
  have allowed: "chat_visibility sample_chat \<noteq> ''private'' \<or> chat_userId sample_chat = user_id alice"
    by (simp add: sample_chat_def alice_def)
  have ids: "getStreamIdsByChatId ?env ''c1'' (world sample_state) = Inr []"
    by simp
  show ?thesis
    using GET_no_stream_id [OF ctx chatId auth user chat allowed ids]
    by (simp add: sample_state_def)
qed

text \<open>
  Claim C10. For a signed-in requester of an existing conversation with a stream id, the
  response is \<open>forbidden:chat\<close> exactly when the conversation is private and the requester
  is not its owner; the request then stops before the stream ids are read. When the
  conversation is public, any signed-in requester gets the attached stream or, when none
  can be attached, the fallback replay.
\<close>

theorem GET_visibility_gate:
  assumes ctx: "getStreamContext env s = (Inr (Some ctx), s1)"
    and chatId: "truthy_param (searchParams_get request ''chatId'') = Some chatId"
    and auth: "auth env (world s) = Inr (Some session)" "session_user session = Some user"
    and chat: "getChatById env (JStr chatId) (world s) = Inr (Some chat)"
    and ids: "getStreamIdsByChatId env chatId (world s) = Inr streamIds"
             "streamIds \<noteq> []" "last streamIds \<noteq> []"
    and attach: "resumableStream ctx (last streamIds) emptyDataStream (world s) = Inr (attached, w')"
    and msgs: "getMessagesByChatId env chatId w' = Inr messages"
  shows "((fst (GET env request s) = Inr (ErrorResponse ''forbidden:chat'' None)) =
            (chat_visibility chat = ''private'' \<and> chat_userId chat \<noteq> user_id user)) \<and>
         (chat_visibility chat = ''private'' \<and> chat_userId chat \<noteq> user_id user \<longrightarrow>
            snd (GET env request s) =
              s1\<lparr>trace := trace s1 @ [Call_auth, Call_getChatById (JStr chatId)]\<rparr>) \<and>
         (chat_visibility chat = ''public'' \<longrightarrow>
            fst (GET env request s) =
              Inr (case attached of
                     Some stream \<Rightarrow> StreamResponse stream 200
                   | None \<Rightarrow>
                       StreamResponse
                         (if messages = [] \<or> msg_role (last messages) \<noteq> ''assistant''
                             \<or> 16000 \<le> Date_now env (world s) - msg_createdAt (last messages)
                          then emptyDataStream else restoredStream env (last messages)) 200))"
proof (cases "chat_visibility chat = ''private'' \<and> chat_userId chat \<noteq> user_id user")
  case True
  then have "GET env request s =
           (Inr (ErrorResponse ''forbidden:chat'' None),
            s1\<lparr>trace := trace s1 @ [Call_auth, Call_getChatById (JStr chatId)]\<rparr>)"
    using GET_rejected [OF ctx chatId auth chat] by simp
  with True show ?thesis by simp
next
  case False
  then have allowed: "chat_visibility chat \<noteq> ''private'' \<or> chat_userId chat = user_id user"
    by blast
  have "fst (GET env request s) =
           Inr (case attached of
                  Some stream \<Rightarrow> StreamResponse stream 200
                | None \<Rightarrow>
                    StreamResponse
                      (if messages = [] \<or> msg_role (last messages) \<noteq> ''assistant''
                          \<or> 16000 \<le> Date_now env (world s) - msg_createdAt (last messages)
                       then emptyDataStream else restoredStream env (last messages)) 200)"
    by (rule GET_outcome [OF ctx chatId auth chat allowed ids attach msgs])
  with False show ?thesis by (auto split: option.splits)
qed

theorem GET_visibility_gate_witness:
  "fst (GET bob_env resume_request sample_state) = Inr (ErrorResponse ''forbidden:chat'' None) \<and>
   snd (GET bob_env resume_request sample_state) =
     \<lparr>world = 0, globalStreamContext = Some sample_context,
      trace = [Call_createResumableStreamContext, Call_auth, Call_getChatById (JStr ''c1'')]\<rparr> \<and>
   fst (GET (bob_env\<lparr>getChatById := (\<lambda>i w. Inr (Some public_chat))\<rparr>) resume_request sample_state) =
     Inr (StreamResponse (restoredStream sample_env sample_message) 200)"
proof -
  let ?s1 = "sample_state\<lparr>trace := [Call_createResumableStreamContext],
                          globalStreamContext := Some sample_context\<rparr>"
  let ?env = "bob_env\<lparr>getChatById := (\<lambda>i w. Inr (Some public_chat))\<rparr>"
  have ctx: "getStreamContext bob_env sample_state = (Inr (Some sample_context), ?s1)"
            "getStreamContext ?env sample_state = (Inr (Some sample_context), ?s1)"
    by (simp_all add: getStreamContext_def bob_env_def sample_env_def sample_state_def)
  have chatId: "truthy_param (searchParams_get resume_request ''chatId'') = Some ''c1''"
    by (simp add: truthy_param_def searchParams_get_def resume_request_def)
  have user: "session_user \<lparr>session_user = Some bob\<rparr> = Some bob"
    by simp
  have denied: "fst (GET bob_env resume_request sample_state) = Inr (ErrorResponse ''forbidden:chat'' None) \<and>
     snd (GET bob_env resume_request sample_state) =
       \<lparr>world = 0, globalStreamContext = Some sample_context,
        trace = [Call_createResumableStreamContext, Call_auth, Call_getChatById (JStr ''c1'')]\<rparr>"
    using GET_visibility_gate [OF ctx(1) chatId _ user, of sample_chat "[''s1'']" None 0 "[sample_message]"]
    by (simp add: bob_env_def sample_env_def sample_state_def sample_context_def sample_chat_def bob_def)
  have permitted: "fst (GET ?env resume_request sample_state) =
     Inr (StreamResponse (restoredStream sample_env sample_message) 200)"
    using GET_visibility_gate [OF ctx(2) chatId _ user, of public_chat "[''s1'']" None 0 "[sample_message]"]
    by (simp add: bob_env_def sample_env_def sample_state_def sample_context_def sample_chat_def
          public_chat_def sample_message_def restoredStream_def)
  show ?thesis using denied permitted by simp
qed

section \<open>Properties of delete and vote\<close>

text \<open>
  Claim C8. A signed-in requester who does not own the conversation named in a delete
  request, or in a vote request whose three fields are present, gets \<open>forbidden:chat\<close>,
  respectively \<open>forbidden:vote\<close>. The final state differs from the initial one only by the
  trace of the two reads: \<^verbatim>\<open>deleteChatById\<close> and \<^verbatim>\<open>voteMessage\<close> are not called
  and the outside world is unchanged.
\<close>

theorem non_owner_forbidden_before_write:
  assumes auth: "auth env (world s) = Inr (Some session)" "session_user session = Some user"
    and id: "truthy_param (searchParams_get delete_request' ''id'') = Some id'"
    and chat: "getChatById env (JStr id') (world s) = Inr (Some chat)"
               "chat_userId chat \<noteq> user_id user"
    and body: "body patch_request = Inr json" "json \<noteq> JNull"
    and fields: "truthy_value (get_property json ''chatId'') = Some chatId"
                "truthy_value (get_property json ''messageId'') = Some messageId"
                "truthy_value (get_property json ''type'') = Some type"
    and voted: "getChatById env chatId (world s) = Inr (Some voted_chat)"
               "chat_userId voted_chat \<noteq> user_id user"
  shows "DELETE env delete_request' s =
           (Inr (ErrorResponse ''forbidden:chat'' None),
            s\<lparr>trace := trace s @ [Call_auth, Call_getChatById (JStr id')]\<rparr>) \<and>
         PATCH env patch_request s =
           (Inr (ErrorResponse ''forbidden:vote'' None),
            s\<lparr>trace := trace s @ [Call_auth, Call_getChatById chatId]\<rparr>)"
proof -
  have del: "DELETE env delete_request' s =
           (Inr (ErrorResponse ''forbidden:chat'' None),
            s\<lparr>trace := trace s @ [Call_auth, Call_getChatById (JStr id')]\<rparr>)"
    using auth id chat by (simp add: DELETE_def prog_defs toResponse_def)
  have destructured: "destructure_vote json s =
      (Inr (get_property json ''chatId'', get_property json ''messageId'', get_property json ''type''), s)"
    using body(2) by (cases json) (simp_all add: destructure_vote_def prog_defs)
  have vote: "PATCH env patch_request s =
           (Inr (ErrorResponse ''forbidden:vote'' None),
            s\<lparr>trace := trace s @ [Call_auth, Call_getChatById chatId]\<rparr>)"
    using auth body(1) fields voted destructured
    by (simp add: PATCH_def request_json_def prog_defs toResponse_def)
  show ?thesis using del vote by simp
qed

text \<open>Bob, on the sample deployment, against Alice's conversation.\<close>

theorem non_owner_forbidden_before_write_witness:
  "DELETE bob_env delete_request sample_state =
     (Inr (ErrorResponse ''forbidden:chat'' None),
      \<lparr>world = 0, globalStreamContext = None,
       trace = [Call_auth, Call_getChatById (JStr ''c1'')]\<rparr>) \<and>
   PATCH bob_env vote_request sample_state =
     (Inr (ErrorResponse ''forbidden:vote'' None),
      \<lparr>world = 0, globalStreamContext = None,
       trace = [Call_auth, Call_getChatById (JStr ''c1'')]\<rparr>)"
proof -
  have auth: "auth bob_env (world sample_state) = Inr (Some \<lparr>session_user = Some bob\<rparr>)"
    by (simp add: bob_env_def)
  have user: "session_user \<lparr>session_user = Some bob\<rparr> = Some bob"
    by simp
  have id: "truthy_param (searchParams_get delete_request ''id'') = Some ''c1''"
    by (simp add: truthy_param_def searchParams_get_def delete_request_def)
  have chat: "getChatById bob_env (JStr ''c1'') (world sample_state) = Inr (Some sample_chat)"
    by (simp add: bob_env_def sample_env_def)
  have other: "chat_userId sample_chat \<noteq> user_id bob"
    by (simp add: sample_chat_def bob_def)
  have body: "body vote_request = Inr (JObj [(''chatId'', JStr ''c1''), (''messageId'', JStr ''m1''),
                                      (''type'', JStr ''up'')])"
    by (simp add: vote_request_def)
  have notnull: "JObj [(''chatId'', JStr ''c1''), (''messageId'', JStr ''m1''), (''type'', JStr ''up'')] \<noteq> JNull"
    by simp
  have fields:
    "truthy_value (get_property (JObj [(''chatId'', JStr ''c1''), (''messageId'', JStr ''m1''),
        (''type'', JStr ''up'')]) ''chatId'') = Some (JStr ''c1'')"
    "truthy_value (get_property (JObj [(''chatId'', JStr ''c1''), (''messageId'', JStr ''m1''),
        (''type'', JStr ''up'')]) ''messageId'') = Some (JStr ''m1'')"
    "truthy_value (get_property (JObj [(''chatId'', JStr ''c1''), (''messageId'', JStr ''m1''),
        (''type'', JStr ''up'')]) ''type'') = Some (JStr ''up'')"
    by (simp_all add: truthy_value_def)
  show ?thesis
    using non_owner_forbidden_before_write [OF auth user id chat other body notnull fields chat other]
    by (simp add: sample_state_def)
qed

text \<open>
  A vote request whose body is a JSON value other than null and lacks a truthy
  \<open>chatId\<close>, \<open>messageId\<close> or \<open>type\<close> is answered with \<open>bad_request:api\<close> before any call.
\<close>

lemma PATCH_missing_parameter:
  assumes body: "body request = Inr json" "json \<noteq> JNull"
    and missing: "\<not> truthy (get_property json ''chatId'') \<or> \<not> truthy (get_property json ''messageId'')
                   \<or> \<not> truthy (get_property json ''type'')"
  shows "PATCH env request s =
           (Inr (ErrorResponse ''bad_request:api''
                   (Some ''Parameters chatId, messageId, and type are required.'')), s)"
proof -
  have destructured: "destructure_vote json s =
      (Inr (get_property json ''chatId'', get_property json ''messageId'', get_property json ''type''), s)"
    using body(2) by (cases json) (simp_all add: destructure_vote_def prog_defs)
  show ?thesis
    using body(1) missing destructured
    by (auto simp add: PATCH_def request_json_def prog_defs toResponse_def truthy_value_def
          split: option.splits)
qed

text \<open>
  Claim C9 fails on the code. The body with \<open>type\<close> \<open>sideways\<close> is refused by
  \<^verbatim>\<open>patchRequestBodySchema\<close>, but the handler does not apply the schema: for the owner it
  calls \<^verbatim>\<open>voteMessage\<close> with that type and answers with success.
\<close>

theorem PATCH_unvalidated_type:
  "\<not> patchRequestBodySchema (JObj [(''chatId'', JStr ''c1''), (''messageId'', JStr ''m1''),
                                   (''type'', JStr ''sideways'')]) \<and>
   PATCH sample_env stray_vote_request sample_state =
     (Inr (TextResponse ''Message voted successfully'' 200),
      \<lparr>world = 1, globalStreamContext = None,
       trace = [Call_auth, Call_getChatById (JStr ''c1''),
                Call_voteMessage (JStr ''c1'') (JStr ''m1'') (JStr ''sideways'')]\<rparr>)"
  by (simp add: patchRequestBodySchema_def z_object_def z_string_min1_def z_string_def
        z_up_or_down_def PATCH_def request_json_def destructure_vote_def truthy_value_def
        prog_defs stray_vote_request_def sample_env_def sample_state_def sample_chat_def alice_def)

section \<open>Properties of start generation\<close>

lemma start_request_parses:
  "body start_request = Inr (JObj [(''id'', JStr ''c1''),
                        (''message'', JObj [(''id'', JStr ''u1''), (''role'', JStr ''user''),
                                            (''content'', JStr ''Hi''),
                                            (''parts'', JArr [JStr ''Hi''])]),
                        (''selectedChatModel'', JStr ''chat-model''),
                        (''selectedVisibilityType'', JStr ''private'')])"
  "postRequestBodySchema_parse (JObj [(''id'', JStr ''c1''),
                        (''message'', JObj [(''id'', JStr ''u1''), (''role'', JStr ''user''),
                                            (''content'', JStr ''Hi''),
                                            (''parts'', JArr [JStr ''Hi''])]),
                        (''selectedChatModel'', JStr ''chat-model''),
                        (''selectedVisibilityType'', JStr ''private'')]) = Inr sample_body"
  by (simp_all add: start_request_def postRequestBodySchema_parse_def message_schema_def
        z_object_def z_string_min1_def z_string_def z_array_any_def z_optional_def sample_body_def)

text \<open>
  Claim C7. A start request with a valid body from a signed-in user whose message count
  over the last 24 hours is greater than \<open>maxMessagesPerDay\<close> of the user's type is
  answered with \<open>rate_limit:chat\<close>. The final state differs from the initial one only by
  the trace of the session lookup and of the count: no conversation is read or created and
  no message is written.
\<close>

theorem POST_rate_limit:
  assumes body: "body request = Inr json" "postRequestBodySchema_parse json = Inr requestBody"
    and auth: "auth env (world s) = Inr (Some session)" "session_user session = Some user"
    and count: "getMessageCountByUserId env (user_id user) 24 (world s) = Inr messageCount"
    and tier: "entitlementsByUserType env (user_type user) = Some entitlements"
    and over: "messageCount > maxMessagesPerDay entitlements"
  shows "POST env request s =
           (Inr (ErrorResponse ''rate_limit:chat'' None),
            s\<lparr>trace := trace s @ [Call_auth, Call_getMessageCountByUserId (user_id user) 24]\<rparr>)"
  using assms
  by (simp add: POST_def request_json_def prog_defs toResponse_def Let_def)

theorem POST_rate_limit_witness:
  "POST (sample_env\<lparr>getMessageCountByUserId := (\<lambda>u h w. Inr 101)\<rparr>) start_request sample_state =
     (Inr (ErrorResponse ''rate_limit:chat'' None),
      \<lparr>world = 0, globalStreamContext = None,
       trace = [Call_auth, Call_getMessageCountByUserId ''alice'' 24]\<rparr>)"
proof -
  let ?env = "sample_env\<lparr>getMessageCountByUserId := (\<lambda>u h w. Inr 101)\<rparr>"
  have auth: "auth ?env (world sample_state) = Inr (Some \<lparr>session_user = Some alice\<rparr>)"
    by (simp add: sample_env_def)
  have user: "session_user \<lparr>session_user = Some alice\<rparr> = Some alice"
    by simp
  have count: "getMessageCountByUserId ?env (user_id alice) 24 (world sample_state) = Inr 101"
    by simp
  have tier: "entitlementsByUserType ?env (user_type alice) = Some \<lparr>maxMessagesPerDay = 100\<rparr>"
    by (simp add: sample_env_def)
  have over: "(101::int) > maxMessagesPerDay \<lparr>maxMessagesPerDay = 100\<rparr>"
    by simp
  show ?thesis
    using POST_rate_limit [OF start_request_parses auth user count tier over]
    by (simp add: sample_state_def alice_def)
qed

text \<open>
  \<^verbatim>\<open>onFinish\<close> never throws, and the stream built around a generation delivers what the
  generation wrote, whatever \<^verbatim>\<open>onFinish\<close> met; neither touches the stream context.
\<close>

lemma onFinish_returns: "fst (onFinish env user requestBody response_messages s) = Inr ()"
  by (simp add: onFinish_def prog_defs Let_def split: option.splits list.splits sum.splits prod.splits)

lemma onFinish_global:
  "globalStreamContext (snd (onFinish env user requestBody response_messages s)) = globalStreamContext s"
  by (simp add: onFinish_def prog_defs Let_def split: option.splits list.splits sum.splits prod.splits)

lemma producer_stream_returns:
  "fst (producer_stream env user requestBody args s) = Inr (dataStream_of (streamText env args (world s)))"
proof (cases "streamText env args (world s)")
  case (Finished written response_messages)
  then show ?thesis
    using onFinish_returns [of env user requestBody response_messages "s\<lparr>trace := trace s @ [Call_streamText]\<rparr>"]
    by (auto simp add: producer_stream_def await_def query_def ret_def split: prod.splits)
next
  case (Failed written error)
  then show ?thesis
    by (simp add: producer_stream_def prog_defs)
qed

lemma producer_stream_global:
  "globalStreamContext (snd (producer_stream env user requestBody args s)) = globalStreamContext s"
proof (cases "streamText env args (world s)")
  case (Finished written response_messages)
  then show ?thesis
    using onFinish_global [of env user requestBody response_messages "s\<lparr>trace := trace s @ [Call_streamText]\<rparr>"]
          onFinish_returns [of env user requestBody response_messages "s\<lparr>trace := trace s @ [Call_streamText]\<rparr>"]
    by (auto simp add: producer_stream_def await_def query_def ret_def split: prod.splits)
next
  case (Failed written error)
  then show ?thesis
    by (simp add: producer_stream_def prog_defs)
qed

text \<open>Sequencing, read through the two components of a run.\<close>

lemma await_alt:
  "await m f s = (case fst (m s) of Inl e \<Rightarrow> (Inl e, snd (m s)) | Inr a \<Rightarrow> f a (snd (m s)))"
  by (cases "m s") (simp add: await_def split: sum.splits)

lemma try_catch_alt:
  "try_catch m h f s = (case fst (m s) of Inl e \<Rightarrow> h e (snd (m s)) | Inr a \<Rightarrow> f a (snd (m s)))"
  by (cases "m s") (simp add: try_catch_def split: sum.splits)

lemmas prog_alt = ret_def throw_def await_alt try_catch_alt emit_def query_def command_def new_Date_def

text \<open>Without a stream context a resume request does nothing but report it.\<close>

lemma GET_unavailable:
  assumes "fst (getStreamContext env s) = Inr None"
  shows "GET env request s = (Inr (NullResponse 204), snd (getStreamContext env s))"
  using assms by (simp add: GET_def prog_alt)

text \<open>
  Claim C3. Let the stream context be absent: the global is null and constructing the
  context fails. Then a start request that is accepted (valid body, signed-in user within
  the daily limit, conversation new or owned, user message saved, stream id minted) is
  answered with the producer's own stream, the data stream of the generation, unchanged;
  and every resume request is answered with status 204, its effect being that of the
  attempt to obtain the context and nothing more.
\<close>

theorem backend_unavailable_passthrough:
  assumes unavailable: "globalStreamContext s = None"
                       "\<forall>w. createResumableStreamContext env w = Inl (failure w)"
    and body: "body request = Inr json" "postRequestBodySchema_parse json = Inr requestBody"
    and auth: "auth env (world s) = Inr (Some session)" "session_user session = Some user"
    and count: "getMessageCountByUserId env (user_id user) 24 (world s) = Inr messageCount"
    and tier: "entitlementsByUserType env (user_type user) = Some entitlements"
              "messageCount \<le> maxMessagesPerDay entitlements"
    and chat: "getChatById env (JStr (body_id requestBody)) (world s) = Inr chat"
    and admitted:
      "case chat of
         Some existing \<Rightarrow> chat_userId existing = user_id user \<and> w1 = world s
       | None \<Rightarrow>
           (\<exists>title. generateTitleFromUserMessage env (body_message requestBody) (world s) = Inr title \<and>
                    saveChat env (body_id requestBody) (user_id user) title
                      (body_selectedVisibilityType requestBody) (world s) = Inr ((), w1))"
    and previous: "getMessagesByChatId env (body_id requestBody) w1 = Inr previousMessages"
    and saved: "saveMessages env [user_row requestBody (Date_now env w1)] w1 = Inr ((), w2)"
    and minted: "createStreamId env (generateUUID env w2) (body_id requestBody) w2 = Inr ((), w3)"
  shows "fst (POST env request s) =
           Inr (StreamResponse
                  (dataStream_of
                     (streamText env (streamText_args request requestBody previousMessages) w3)) 200) \<and>
         GET env resume s = (Inr (NullResponse 204), snd (getStreamContext env s))"
proof -
  have absent: "\<And>s'. globalStreamContext s' = None \<Longrightarrow> fst (getStreamContext env s') = Inr None"
    using unavailable(2) by (simp add: getStreamContext_result)
  have resume: "GET env resume s = (Inr (NullResponse 204), snd (getStreamContext env s))"
    by (rule GET_unavailable) (rule absent [OF unavailable(1)])
  have start: "fst (POST env request s) =
           Inr (StreamResponse
                  (dataStream_of
                     (streamText env (streamText_args request requestBody previousMessages) w3)) 200)"
  proof (cases chat)
    case None
    with admitted obtain title where
      title: "generateTitleFromUserMessage env (body_message requestBody) (world s) = Inr title"
      and created: "saveChat env (body_id requestBody) (user_id user) title
                      (body_selectedVisibilityType requestBody) (world s) = Inr ((), w1)"
      by auto
    show ?thesis
      using None unavailable(1) body auth count tier chat title created previous saved minted
      by (simp add: POST_def request_json_def prog_alt toResponse_def Let_def
            producer_stream_returns producer_stream_global absent)
  next
    case (Some existing)
    with admitted have owner: "chat_userId existing = user_id user" and w1: "w1 = world s"
      by auto
    show ?thesis
      using Some unavailable(1) body auth count tier chat owner w1 previous saved minted
      by (simp add: POST_def request_json_def prog_alt toResponse_def Let_def
            producer_stream_returns producer_stream_global absent)
  qed
  show ?thesis using start resume by simp
qed


theorem backend_unavailable_passthrough_witness:
  "fst (POST offline_env start_request sample_state) =
     Inr (StreamResponse \<lparr>chunks = [Part ''Hel'', Part ''lo''], ending = Closed\<rparr> 200) \<and>
   GET offline_env resume_request sample_state =
     (Inr (NullResponse 204),
      \<lparr>world = 0, globalStreamContext = None,
       trace = [Call_createResumableStreamContext,
                Console_log '' > Resumable streams are disabled due to missing REDIS_URL'']\<rparr>)"
proof -
  have unavailable: "globalStreamContext sample_state = None"
    "\<forall>w. createResumableStreamContext offline_env w =
          Inl ((\<lambda>w. ''REDIS_URL environment variable is not set'') w)"
    by (simp_all add: sample_state_def offline_env_def)
  have auth: "auth offline_env (world sample_state) = Inr (Some \<lparr>session_user = Some alice\<rparr>)"
    by (simp add: offline_env_def sample_env_def)
  have user: "session_user \<lparr>session_user = Some alice\<rparr> = Some alice"
    by simp
  have count: "getMessageCountByUserId offline_env (user_id alice) 24 (world sample_state) = Inr 3"
    by (simp add: offline_env_def sample_env_def)
  have tier: "entitlementsByUserType offline_env (user_type alice) = Some \<lparr>maxMessagesPerDay = 100\<rparr>"
             "(3::int) \<le> maxMessagesPerDay \<lparr>maxMessagesPerDay = 100\<rparr>"
    by (simp_all add: offline_env_def sample_env_def)
  have chat: "getChatById offline_env (JStr (body_id sample_body)) (world sample_state) =
                Inr (Some sample_chat)"
    by (simp add: offline_env_def sample_env_def)
  have admitted:
      "case Some sample_chat of
         Some existing \<Rightarrow> chat_userId existing = user_id alice \<and> 0 = world sample_state
       | None \<Rightarrow>
           (\<exists>title. generateTitleFromUserMessage offline_env (body_message sample_body)
                      (world sample_state) = Inr title \<and>
                    saveChat offline_env (body_id sample_body) (user_id alice) title
                      (body_selectedVisibilityType sample_body) (world sample_state) = Inr ((), 0))"
    by (simp add: sample_chat_def alice_def sample_state_def)
  have previous: "getMessagesByChatId offline_env (body_id sample_body) 0 = Inr [sample_message]"
    by (simp add: offline_env_def sample_env_def)
  have saved: "saveMessages offline_env [user_row sample_body (Date_now offline_env 0)] 0 = Inr ((), 1)"
    by (simp add: offline_env_def sample_env_def)
  have minted: "createStreamId offline_env (generateUUID offline_env 1) (body_id sample_body) 1 =
                  Inr ((), 2)"
    by (simp add: offline_env_def sample_env_def)
  show ?thesis
    using backend_unavailable_passthrough [OF unavailable start_request_parses auth user count tier
            chat admitted previous saved minted, of resume_request]
    by (simp add: offline_env_def sample_env_def sample_state_def dataStream_of_def
          createDataStream_def getStreamContext_def)
qed



end
